theory Spec2Isabelle
  imports Complex_Main "HOL-Library.List_Lexorder" "HOL-Library.Product_Lexorder"
begin

section \<open>The build scripts\<close>

text \<open>
  The two build scripts of the package are sequences of CMake commands. A command changes
  the build being configured, so each is a function on a \<open>build_state\<close>: the Cython
  libraries declared so far, the install rules and the subdirectories added.
  \<open>add_cython_library\<close> is a CMake function the project defines outside these two
  scripts; what is visible of it here is its call, which declares the library target
  \<open>LIBRARY\<close> built from \<open>SOURCE\<close> with the generated C file \<open>OUTPUT\<close>.
\<close>

record cython_library =
  SOURCE :: string
  LIBRARY :: string
  OUTPUT :: string

record install_rule =
  TARGETS :: string
  DESTINATION :: string

record build_state =
  libraries :: "cython_library list"
  installs :: "install_rule list"
  subdirectories :: "string list"

definition empty_build :: build_state where
  "empty_build = \<lparr>libraries = [], installs = [], subdirectories = []\<rparr>"

definition add_cython_library :: "string \<Rightarrow> string \<Rightarrow> string \<Rightarrow> build_state \<Rightarrow> build_state" where
  "add_cython_library src lib out st =
     st\<lparr>libraries := libraries st @ [\<lparr>SOURCE = src, LIBRARY = lib, OUTPUT = out\<rparr>]\<rparr>"

definition install :: "string \<Rightarrow> string \<Rightarrow> build_state \<Rightarrow> build_state" where
  "install tgt dest st =
     st\<lparr>installs := installs st @ [\<lparr>TARGETS = tgt, DESTINATION = dest\<rparr>]\<rparr>"

definition add_subdirectory :: "string \<Rightarrow> build_state \<Rightarrow> build_state" where
  "add_subdirectory dir st = st\<lparr>subdirectories := subdirectories st @ [dir]\<rparr>"

text \<open>\<open>foreach(source a b c) ... endforeach()\<close> runs its body once per item, in order.\<close>

fun foreach :: "string list \<Rightarrow> (string \<Rightarrow> build_state \<Rightarrow> build_state) \<Rightarrow> build_state \<Rightarrow> build_state" where
  "foreach [] body st = st"
| "foreach (source # rest) body st = foreach rest body (body source st)"

text \<open>
  The script of the physics directory. Its leading \<open>set_property\<close> extends the include
  path and declares no target, so it leaves the build state as it is. The variable
  \<open>SKBUILD_PROJECT_NAME\<close> is set by the build backend and is a parameter here.
\<close>

definition physics_sources :: "string list" where
  "physics_sources =
     [''_bloch'', ''_phase'',
      ''_matrix_utils'',
      ''_matrix_k'', ''_matrix_dk'', ''_matrix_ddk'',
      ''_matrix_phase'', ''_matrix_phase_sc'', ''_matrix_phase3'']"

definition physics_CMakeLists :: "string \<Rightarrow> build_state \<Rightarrow> build_state" where
  "physics_CMakeLists SKBUILD_PROJECT_NAME =
     foreach physics_sources (\<lambda>source st.
       install source (SKBUILD_PROJECT_NAME @ ''/physics'')
         (add_cython_library (source @ ''.pyx'') source (source @ ''_C'') st))"

text \<open>
  The script of the package root, from its first \<open>foreach\<close> on: two Cython
  sources, one pure-Python source compiled with Cython, then the four subdirectories.
\<close>

definition sisl_CMakeLists :: "string \<Rightarrow> build_state \<Rightarrow> build_state" where
  "sisl_CMakeLists SKBUILD_PROJECT_NAME st0 =
     (let st1 = foreach [''_indices'', ''_math_small''] (\<lambda>source st.
                  install source SKBUILD_PROJECT_NAME
                    (add_cython_library (source @ ''.pyx'') source (source @ ''_C'') st)) st0;
          st2 = foreach [''_sparse_grid_ops''] (\<lambda>source st.
                  install source SKBUILD_PROJECT_NAME
                    (add_cython_library (source @ ''.py'') source (source @ ''_C'') st)) st1;
          st3 = add_subdirectory ''_core'' st2;
          st4 = add_subdirectory ''io'' st3;
          st5 = add_subdirectory ''physics'' st4;
          st6 = add_subdirectory ''geom'' st5
      in st6)"

text \<open>
  The libraries a build both declares and installs into a given directory, in the order
  of their declaration.
\<close>

definition installed_into :: "build_state \<Rightarrow> string \<Rightarrow> string list" where
  "installed_into st dir =
     map LIBRARY (filter (\<lambda>l. \<lparr>TARGETS = LIBRARY l, DESTINATION = dir\<rparr> \<in> set (installs st))
                    (libraries st))"

subsection \<open>Installed libraries as Python modules\<close>




definition module_leaf :: "string \<Rightarrow> string" where
  "module_leaf m = rev (takeWhile (\<lambda>c. c \<noteq> CHR ''.'') (rev m))"

definition module_package :: "string \<Rightarrow> string" where
  "module_package m = rev (drop 1 (dropWhile (\<lambda>c. c \<noteq> CHR ''.'') (rev m)))"

definition package_dir :: "string \<Rightarrow> string" where
  "package_dir p = map (\<lambda>c. if c = CHR ''.'' then CHR ''/'' else c) p"

definition built_and_installed :: "build_state \<Rightarrow> string \<Rightarrow> bool" where
  "built_and_installed st m \<longleftrightarrow>
     module_leaf m \<in> set (map LIBRARY (libraries st)) \<and>
     \<lparr>TARGETS = module_leaf m, DESTINATION = package_dir (module_package m)\<rparr> \<in> set (installs st)"


section \<open>Versions and requirements\<close>

text \<open>
  The requirement strings of the project file are read by the installer, not by code of
  this package: \<open>name>=V\<close> holds of a version that is at least \<open>V\<close> in the order of
  public version identifiers (epoch, release segments compared with trailing zeros
  dropped, then pre-release, post-release and development release). The key below is
  that order's sort key: a release without pre-release sorts above its pre-releases,
  unless it is a bare development release, which sorts below them; no post-release sorts
  below any; no development release sorts above any.
\<close>

datatype pre_kind = Alpha | Beta | RC

fun pre_rank :: "pre_kind \<Rightarrow> nat" where
  "pre_rank Alpha = 0"
| "pre_rank Beta = 1"
| "pre_rank RC = 2"

record version =
  epoch :: nat
  release :: "nat list"
  pre :: "(pre_kind \<times> nat) option"
  post :: "nat option"
  dev :: "nat option"

definition final :: "nat list \<Rightarrow> version" where
  "final r = \<lparr>epoch = 0, release = r, pre = None, post = None, dev = None\<rparr>"

definition candidate :: "nat list \<Rightarrow> nat \<Rightarrow> version" where
  "candidate r n = \<lparr>epoch = 0, release = r, pre = Some (RC, n), post = None, dev = None\<rparr>"

definition trim_zeros :: "nat list \<Rightarrow> nat list" where
  "trim_zeros r = rev (dropWhile (\<lambda>x. x = 0) (rev r))"

definition pre_key :: "version \<Rightarrow> nat \<times> nat \<times> nat" where
  "pre_key v =
     (case pre v of
        Some (k, n) \<Rightarrow> (1, pre_rank k, n)
      | None \<Rightarrow> if post v = None \<and> dev v \<noteq> None then (0, 0, 0) else (2, 0, 0))"

definition post_key :: "version \<Rightarrow> nat \<times> nat" where
  "post_key v = (case post v of None \<Rightarrow> (0, 0) | Some n \<Rightarrow> (1, n))"

definition dev_key :: "version \<Rightarrow> nat \<times> nat" where
  "dev_key v = (case dev v of None \<Rightarrow> (1, 0) | Some n \<Rightarrow> (0, n))"

definition cmpkey :: "version \<Rightarrow> nat \<times> nat list \<times> (nat \<times> nat \<times> nat) \<times> (nat \<times> nat) \<times> (nat \<times> nat)" where
  "cmpkey v = (epoch v, trim_zeros (release v), pre_key v, post_key v, dev_key v)"

datatype specifier = GreaterEqual version

fun satisfies :: "version \<Rightarrow> specifier \<Rightarrow> bool" where
  "satisfies v (GreaterEqual w) \<longleftrightarrow> cmpkey w \<le> cmpkey v"

record requirement =
  package :: string
  extras :: "string list"
  spec :: specifier

definition requirement_of :: "string \<Rightarrow> requirement list \<Rightarrow> specifier option" where
  "requirement_of n reqs = map_option spec (find (\<lambda>r. package r = n) reqs)"

section \<open>The project file\<close>

text \<open>
  The tables of \<open>pyproject.toml\<close> the properties below read: the build requirements, the
  project's name and run-time dependencies, the wheel's packages, the
  optional-dependency groups and the extension allow-list of the linter. The groups keep
  their requirement strings as written.
\<close>

record pyproject =
  build_requires :: "requirement list"
  name :: string
  dependencies :: "requirement list"
  wheel_packages :: "string list"
  optional_dependencies :: "(string \<times> string list) list"
  extension_pkg_allow_list :: "string list"

definition sisl_pyproject :: pyproject where
  "sisl_pyproject =
     \<lparr>build_requires =
        [\<lparr>package = ''setuptools_scm'', extras = [''toml''], spec = GreaterEqual (final [6, 2])\<rparr>,
         \<lparr>package = ''scikit-build-core'', extras = [''pyproject''], spec = GreaterEqual (final [0, 8])\<rparr>,
         \<lparr>package = ''Cython'', extras = [], spec = GreaterEqual (final [3])\<rparr>,
         \<lparr>package = ''numpy'', extras = [], spec = GreaterEqual (candidate [2, 0, 0] 1)\<rparr>],
      name = ''sisl'',
      dependencies =
        [\<lparr>package = ''numpy'', extras = [], spec = GreaterEqual (final [1, 20])\<rparr>,
         \<lparr>package = ''scipy'', extras = [], spec = GreaterEqual (final [1, 5])\<rparr>,
         \<lparr>package = ''pyparsing'', extras = [], spec = GreaterEqual (final [2, 2, 1])\<rparr>,
         \<lparr>package = ''xarray'', extras = [], spec = GreaterEqual (final [0, 20])\<rparr>],
      wheel_packages = [''src/sisl'', ''src/sisl_toolbox''],
      optional_dependencies =
        [(''analysis'', [''netCDF4'', ''tqdm>=4.36.0'']),
         (''viz'', [''nodify'', ''netCDF4'', ''dill >= 0.3.2'', ''pathos'', ''scikit-image'',
                    ''plotly'', ''matplotlib'', ''ase'']),
         (''viz-plotly'', [''nodify'', ''netCDF4'', ''dill >= 0.3.2'', ''pathos'',
                           ''scikit-image'', ''plotly'']),
         (''viz-matplotlib'', [''nodify'', ''netCDF4'', ''dill >= 0.3.2'', ''pathos'',
                               ''scikit-image'', ''matplotlib'']),
         (''viz-blender'', [''nodify'', ''netCDF4'', ''dill >= 0.3.2'', ''pathos'',
                            ''scikit-image'']),
         (''viz-ase'', [''netCDF4'', ''dill >= 0.3.2'', ''pathos'', ''scikit-image'', ''ase'']),
         (''test'', [''pytest>=7'', ''coverage[toml]'', ''pytest-cov'', ''pytest-env'',
                     ''pytest-faulthandler'']),
         (''docs'', [''nbsphinx'', ''sphinx-rtd-theme'', ''sphinx-design'', ''sphinx-gallery'',
                     ''sphinx-copybutton'', ''sphinx-togglebutton'', ''sphinx-inline-tabs'',
                     ''sphinxcontrib-bibtex'', ''importlib-metadata'', ''ipykernel'',
                     ''ipywidgets'', ''jupyterlab-widgets'', ''kaleido'', ''pytz'', ''networkx'',
                     ''pyvis'', ''pybtex'', ''pandoc''])],
      extension_pkg_allow_list =
        [''sisl._math_small'',
         ''sisl._indices'',
         ''sisl._core._lattice'',
         ''sisl.io.siesta._siesta'',
         ''sisl.physics._bloch'',
         ''sisl.physics._matrix_k'',
         ''sisl.physics._matrix_dk'',
         ''sisl.physics._matrix_ddk'',
         ''numpy'',
         ''scipy'']\<rparr>"

text \<open>A file is shipped in the wheel when it lies under one of the wheel's packages.\<close>

definition in_package :: "string \<Rightarrow> string \<Rightarrow> bool" where
  "in_package pkg path \<longleftrightarrow> take (length pkg + 1) path = pkg @ ''/''"

definition shipped :: "pyproject \<Rightarrow> string \<Rightarrow> bool" where
  "shipped pp path \<longleftrightarrow> list_ex (\<lambda>pkg. in_package pkg path) (wheel_packages pp)"

section \<open>The minimizer's input file\<close>

text \<open>
  The input file of the minimizer is a YAML document: numbers, strings, sequences and
  mappings. A value is an optimization variable when it is a mapping that gives a number
  for \<open>initial\<close>, two numbers for \<open>bounds\<close> and a number for \<open>delta\<close>; any other value
  is a parameter or a section. The numbers are the decimal fractions the file writes.
\<close>

datatype yaml =
  Num rat
| Str string
| Seq "yaml list"
| Map "(string \<times> yaml) list"

record variable =
  initial :: rat
  bounds :: "rat \<times> rat"
  delta :: rat

fun number :: "yaml \<Rightarrow> rat option" where
  "number (Num x) = Some x"
| "number _ = None"

fun interval :: "yaml \<Rightarrow> (rat \<times> rat) option" where
  "interval (Seq [Num lo, Num hi]) = Some (lo, hi)"
| "interval _ = None"

definition as_variable :: "(string \<times> yaml) list \<Rightarrow> variable option" where
  "as_variable kvs =
     (case (Option.bind (map_of kvs ''initial'') number,
            Option.bind (map_of kvs ''bounds'') interval,
            Option.bind (map_of kvs ''delta'') number) of
        (Some i, Some b, Some d) \<Rightarrow> Some \<lparr>initial = i, bounds = b, delta = d\<rparr>
      | _ \<Rightarrow> None)"

fun variables :: "yaml \<Rightarrow> variable list" where
  "variables (Map kvs) =
     (case as_variable kvs of
        Some v \<Rightarrow> [v]
      | None \<Rightarrow> concat (map (\<lambda>kv. variables (snd kv)) kvs))"
| "variables (Seq ys) = concat (map variables ys)"
| "variables (Num x) = []"
| "variables (Str s) = []"

definition var :: "rat \<Rightarrow> rat \<Rightarrow> rat \<Rightarrow> rat \<Rightarrow> yaml" where
  "var i lo hi d =
     Map [(''initial'', Num i), (''bounds'', Seq [Num lo, Num hi]), (''delta'', Num d)]"

definition optimize_yaml_path :: string where
  "optimize_yaml_path = ''src/sisl_toolbox/siesta/minimizer/optimize.yaml''"

definition optimize_yaml :: yaml where
  "optimize_yaml =
     Map [(''atom_Al'', Map
       [(''element'', Str ''Al''),
        (''pseudo'', Map
          [(''define'', Seq [Str ''NEW_CC'', Str ''FREE_FORMAT_RC_INPUT'', Str ''NO_PS_CUTOFFS'']),
           (''flavor'', Str ''tm2''),
           (''xc'', Str ''pb''),
           (''equation'', Str ''r''),
           (''core-correction'', Str ''1.2647821553 Bohr'')]),
        (''3s'', Map
          [(''pseudo'', Map
             [(''cutoff'', var 1.2 0.8 2.3 0.1),
              (''charge'', Num 2)]),
           (''basis'', Map
             [(''soft-confinement'', Map
                [(''V0'', var 0 0 1000 50),
                 (''ri'', var (-0.8) (-0.95) (-0.5) 0.08)]),
              (''zeta1'', var 2.4 1 5.5 0.5),
              (''zeta2'', var 1.6 1 5.5 0.5)])]),
        (''3p'', Map
          [(''pseudo'', Map
             [(''cutoff'', var 1.1 0.8 2.3 0.1),
              (''charge'', Num 1)]),
           (''basis'', Map
             [(''soft-confinement'', Map
                [(''V0'', var 0 0 1000 50),
                 (''ri'', var (-0.8) (-0.95) (-0.5) 0.08)]),
              (''zeta1'', var 2.4 1 5.5 0.25),
              (''zeta2'', var 2.0 1 5.5 0.25)])]),
        (''3d'', Map
          [(''pseudo'', Map
             [(''cutoff'', var 1.15 0.8 2.3 0.1)]),
           (''basis'', Map
             [(''charge-confinement'', Map
                [(''charge'', var 0 0 5 0.5),
                 (''yukawa'', var 0 0 3 0.5),
                 (''width'', var 0.0053 0.0 0.5 0.05)]),
              (''soft-confinement'', Map
                [(''V0'', var 0 0 1000 50),
                 (''ri'', var (-0.8) (-0.95) (-0.5) 0.08)]),
              (''zeta1'', var 2.4 1 5.5 0.25)])]),
        (''4f'', Map
          [(''pseudo'', Map
             [(''cutoff'', var 1.2 0.8 2.3 0.1)])])])]"

text \<open>The sections of a mapping, by key; a missing key or a non-mapping has none.\<close>

fun section_of :: "string \<Rightarrow> yaml \<Rightarrow> yaml option" where
  "section_of k (Map kvs) = map_of kvs k"
| "section_of k _ = None"

section \<open>Properties of the build scripts\<close>

lemma physics_build:
  "physics_CMakeLists p empty_build =
     \<lparr>libraries = map (\<lambda>s. \<lparr>SOURCE = s @ ''.pyx'', LIBRARY = s, OUTPUT = s @ ''_C''\<rparr>) physics_sources,
      installs = map (\<lambda>s. \<lparr>TARGETS = s, DESTINATION = p @ ''/physics''\<rparr>) physics_sources,
      subdirectories = []\<rparr>"
  by (simp add: physics_CMakeLists_def physics_sources_def empty_build_def
      add_cython_library_def install_def)

text \<open>
  C1: configured from nothing, the physics script declares and installs into
  \<open><project>/physics\<close> exactly the nine Cython libraries \<open>_bloch\<close>, \<open>_phase\<close>,
  \<open>_matrix_utils\<close>, \<open>_matrix_k\<close>, \<open>_matrix_dk\<close>, \<open>_matrix_ddk\<close>, \<open>_matrix_phase\<close>,
  \<open>_matrix_phase_sc\<close> and \<open>_matrix_phase3\<close>, each built from its \<open>.pyx\<close> source; it
  declares no other library and installs nothing anywhere else.
\<close>

theorem physics_kernel_set:
  "set (installed_into (physics_CMakeLists p empty_build) (p @ ''/physics'')) =
     {''_bloch'', ''_phase'', ''_matrix_utils'', ''_matrix_k'', ''_matrix_dk'', ''_matrix_ddk'',
      ''_matrix_phase'', ''_matrix_phase_sc'', ''_matrix_phase3''}
   \<and> map LIBRARY (libraries (physics_CMakeLists p empty_build)) =
       installed_into (physics_CMakeLists p empty_build) (p @ ''/physics'')
   \<and> map SOURCE (libraries (physics_CMakeLists p empty_build)) =
       map (\<lambda>s. s @ ''.pyx'') (installed_into (physics_CMakeLists p empty_build) (p @ ''/physics''))
   \<and> map DESTINATION (installs (physics_CMakeLists p empty_build)) =
       replicate 9 (p @ ''/physics'')"
  by (simp add: physics_build installed_into_def physics_sources_def numeral_eq_Suc)

lemma sisl_build:
  "sisl_CMakeLists p empty_build =
     \<lparr>libraries =
        [\<lparr>SOURCE = ''_indices.pyx'', LIBRARY = ''_indices'', OUTPUT = ''_indices_C''\<rparr>,
         \<lparr>SOURCE = ''_math_small.pyx'', LIBRARY = ''_math_small'', OUTPUT = ''_math_small_C''\<rparr>,
         \<lparr>SOURCE = ''_sparse_grid_ops.py'', LIBRARY = ''_sparse_grid_ops'',
            OUTPUT = ''_sparse_grid_ops_C''\<rparr>],
      installs = map (\<lambda>s. \<lparr>TARGETS = s, DESTINATION = p\<rparr>)
                   [''_indices'', ''_math_small'', ''_sparse_grid_ops''],
      subdirectories = [''_core'', ''io'', ''physics'', ''geom'']\<rparr>"
  by (simp add: sisl_CMakeLists_def empty_build_def add_cython_library_def install_def
      add_subdirectory_def)


lemma project_name: "name sisl_pyproject = ''sisl''"
  by (simp add: sisl_pyproject_def)

lemma allow_list:
  "extension_pkg_allow_list sisl_pyproject =
     [''sisl._math_small'', ''sisl._indices'', ''sisl._core._lattice'',
      ''sisl.io.siesta._siesta'', ''sisl.physics._bloch'', ''sisl.physics._matrix_k'',
      ''sisl.physics._matrix_dk'', ''sisl.physics._matrix_ddk'', ''numpy'', ''scipy'']"
  by (simp add: sisl_pyproject_def)

text \<open>
  C6: the parts the specification sets aside are in the repository. The root script adds
  the subdirectories \<open>io\<close>, \<open>geom\<close> and \<open>_core\<close>; the minimizer's input file lies
  under a package of the wheel, has a pseudopotential section and a basis section and
  declares optimization variables; and the project file declares the optional-dependency
  groups \<open>viz\<close>, \<open>viz-plotly\<close>, \<open>viz-matplotlib\<close>, \<open>viz-blender\<close> and \<open>viz-ase\<close>.
\<close>

theorem subsystems_present:
  "''io'' \<in> set (subdirectories (sisl_CMakeLists p empty_build))
   \<and> ''geom'' \<in> set (subdirectories (sisl_CMakeLists p empty_build))
   \<and> ''_core'' \<in> set (subdirectories (sisl_CMakeLists p empty_build))
   \<and> shipped sisl_pyproject optimize_yaml_path
   \<and> Option.bind (section_of ''atom_Al'' optimize_yaml) (section_of ''pseudo'') \<noteq> None
   \<and> Option.bind (Option.bind (section_of ''atom_Al'' optimize_yaml) (section_of ''3s''))
        (section_of ''basis'') \<noteq> None
   \<and> variables optimize_yaml \<noteq> []
   \<and> ''viz'' \<in> set (map fst (optional_dependencies sisl_pyproject))
   \<and> ''viz-plotly'' \<in> set (map fst (optional_dependencies sisl_pyproject))
   \<and> ''viz-matplotlib'' \<in> set (map fst (optional_dependencies sisl_pyproject))
   \<and> ''viz-blender'' \<in> set (map fst (optional_dependencies sisl_pyproject))
   \<and> ''viz-ase'' \<in> set (map fst (optional_dependencies sisl_pyproject))"
  by (simp add: sisl_build shipped_def in_package_def sisl_pyproject_def optimize_yaml_path_def
      optimize_yaml_def var_def as_variable_def)



section \<open>Properties of the minimizer's input file\<close>

lemma optimize_variables:
  "variables optimize_yaml =
    [\<lparr>initial = 1.2, bounds = (0.8, 2.3), delta = 0.1\<rparr>,
     \<lparr>initial = 0, bounds = (0, 1000), delta = 50\<rparr>,
     \<lparr>initial = -0.8, bounds = (-0.95, -0.5), delta = 0.08\<rparr>,
     \<lparr>initial = 2.4, bounds = (1, 5.5), delta = 0.5\<rparr>,
     \<lparr>initial = 1.6, bounds = (1, 5.5), delta = 0.5\<rparr>,
     \<lparr>initial = 1.1, bounds = (0.8, 2.3), delta = 0.1\<rparr>,
     \<lparr>initial = 0, bounds = (0, 1000), delta = 50\<rparr>,
     \<lparr>initial = -0.8, bounds = (-0.95, -0.5), delta = 0.08\<rparr>,
     \<lparr>initial = 2.4, bounds = (1, 5.5), delta = 0.25\<rparr>,
     \<lparr>initial = 2.0, bounds = (1, 5.5), delta = 0.25\<rparr>,
     \<lparr>initial = 1.15, bounds = (0.8, 2.3), delta = 0.1\<rparr>,
     \<lparr>initial = 0, bounds = (0, 5), delta = 0.5\<rparr>,
     \<lparr>initial = 0, bounds = (0, 3), delta = 0.5\<rparr>,
     \<lparr>initial = 0.0053, bounds = (0.0, 0.5), delta = 0.05\<rparr>,
     \<lparr>initial = 0, bounds = (0, 1000), delta = 50\<rparr>,
     \<lparr>initial = -0.8, bounds = (-0.95, -0.5), delta = 0.08\<rparr>,
     \<lparr>initial = 2.4, bounds = (1, 5.5), delta = 0.25\<rparr>,
     \<lparr>initial = 1.2, bounds = (0.8, 2.3), delta = 0.1\<rparr>]"
  by (simp add: optimize_yaml_def var_def as_variable_def)

text \<open>
  C8: every optimization variable the shipped input file declares has its initial value
  within its bounds, and a positive step no longer than the interval between the bounds.
\<close>

theorem variables_well_placed:
  "\<forall>v \<in> set (variables optimize_yaml).
     fst (bounds v) \<le> initial v \<and> initial v \<le> snd (bounds v) \<and>
     0 < delta v \<and> delta v \<le> snd (bounds v) - fst (bounds v)"
  unfolding optimize_variables by simp

text \<open>
  The file declares eighteen variables; at the turn-on radius \<open>ri\<close> of the \<open>3s\<close> shell,
  with its negative bounds, the theorem gives the four inequalities.
\<close>

theorem variables_well_placed_witness:
  "\<lparr>initial = -0.8, bounds = (-0.95, -0.5), delta = 0.08\<rparr> \<in> set (variables optimize_yaml)
   \<and> (-0.95 :: rat) \<le> -0.8 \<and> (-0.8 :: rat) \<le> -0.5 \<and> (0 :: rat) < 0.08
   \<and> (0.08 :: rat) \<le> -0.5 - (-0.95)
   \<and> length (variables optimize_yaml) = 18"
proof -
  have m: "\<lparr>initial = -0.8, bounds = (-0.95, -0.5), delta = 0.08\<rparr> \<in> set (variables optimize_yaml)"
    unfolding optimize_variables by simp
  have n: "length (variables optimize_yaml) = 18"
    unfolding optimize_variables by simp
  from variables_well_placed [rule_format, OF m] m n show ?thesis by simp
qed

section \<open>Properties of the project file\<close>

text \<open>
  C9: the build requirement on numpy (\<open>>=2.0.0rc1\<close>) is strictly stronger than the
  run-time requirement (\<open>>=1.20\<close>): every version that satisfies the first satisfies the
  second, and some version satisfies the second but not the first.
\<close>

theorem numpy_build_stronger:
  "requirement_of ''numpy'' (build_requires sisl_pyproject)
       = Some (GreaterEqual (candidate [2, 0, 0] 1))
   \<and> requirement_of ''numpy'' (dependencies sisl_pyproject)
       = Some (GreaterEqual (final [1, 20]))
   \<and> (\<forall>v. satisfies v (GreaterEqual (candidate [2, 0, 0] 1))
          \<longrightarrow> satisfies v (GreaterEqual (final [1, 20])))
   \<and> (\<exists>v. satisfies v (GreaterEqual (final [1, 20]))
          \<and> \<not> satisfies v (GreaterEqual (candidate [2, 0, 0] 1)))"
proof -
  have le: "cmpkey (final [1, 20]) \<le> cmpkey (candidate [2, 0, 0] 1)"
    by (simp add: cmpkey_def final_def candidate_def trim_zeros_def)
  have all: "\<forall>v. satisfies v (GreaterEqual (candidate [2, 0, 0] 1))
          \<longrightarrow> satisfies v (GreaterEqual (final [1, 20]))"
    using le by (auto intro: order_trans)
  have "satisfies (final [1, 26, 4]) (GreaterEqual (final [1, 20]))
      \<and> \<not> satisfies (final [1, 26, 4]) (GreaterEqual (candidate [2, 0, 0] 1))"
    by (simp add: cmpkey_def final_def candidate_def trim_zeros_def)
  then have ex: "\<exists>v. satisfies v (GreaterEqual (final [1, 20]))
          \<and> \<not> satisfies v (GreaterEqual (candidate [2, 0, 0] 1))"
    by blast
  have b: "requirement_of ''numpy'' (build_requires sisl_pyproject)
       = Some (GreaterEqual (candidate [2, 0, 0] 1))"
    by (simp add: requirement_of_def sisl_pyproject_def)
  have r: "requirement_of ''numpy'' (dependencies sisl_pyproject)
       = Some (GreaterEqual (final [1, 20]))"
    by (simp add: requirement_of_def sisl_pyproject_def)
  from b r all ex show ?thesis by blast
qed

text \<open>Version 2.1.0 satisfies the build requirement, and so the run-time one.\<close>

theorem numpy_build_stronger_witness:
  "satisfies (final [2, 1, 0]) (GreaterEqual (candidate [2, 0, 0] 1))
   \<and> satisfies (final [2, 1, 0]) (GreaterEqual (final [1, 20]))"
proof -
  have h: "satisfies (final [2, 1, 0]) (GreaterEqual (candidate [2, 0, 0] 1))"
    by (simp add: cmpkey_def final_def candidate_def trim_zeros_def)
  from numpy_build_stronger
  have "satisfies (final [2, 1, 0]) (GreaterEqual (candidate [2, 0, 0] 1))
          \<longrightarrow> satisfies (final [2, 1, 0]) (GreaterEqual (final [1, 20]))"
    by blast
  with h show ?thesis by blast
qed

text \<open>
  C10: each of the six modules \<open>sisl.physics._bloch\<close>, \<open>sisl.physics._matrix_k\<close>,
  \<open>sisl.physics._matrix_dk\<close>, \<open>sisl.physics._matrix_ddk\<close>, \<open>sisl._indices\<close> and
  \<open>sisl._math_small\<close> is on the allow-list, and the build scripts declare a Cython
  library of its name and install it into the directory of its package: the physics
  kernels into \<open><project>/physics\<close>, the other two into the package root.
\<close>

theorem allow_listed_modules_built:
  "built_and_installed (physics_CMakeLists (name sisl_pyproject) empty_build) ''sisl.physics._bloch''
   \<and> built_and_installed (physics_CMakeLists (name sisl_pyproject) empty_build) ''sisl.physics._matrix_k''
   \<and> built_and_installed (physics_CMakeLists (name sisl_pyproject) empty_build) ''sisl.physics._matrix_dk''
   \<and> built_and_installed (physics_CMakeLists (name sisl_pyproject) empty_build) ''sisl.physics._matrix_ddk''
   \<and> built_and_installed (sisl_CMakeLists (name sisl_pyproject) empty_build) ''sisl._indices''
   \<and> built_and_installed (sisl_CMakeLists (name sisl_pyproject) empty_build) ''sisl._math_small''
   \<and> package_dir (module_package ''sisl.physics._bloch'') = name sisl_pyproject @ ''/physics''
   \<and> package_dir (module_package ''sisl._indices'') = name sisl_pyproject
   \<and> set [''sisl.physics._bloch'', ''sisl.physics._matrix_k'', ''sisl.physics._matrix_dk'',
           ''sisl.physics._matrix_ddk'', ''sisl._indices'', ''sisl._math_small'']
       \<subseteq> set (extension_pkg_allow_list sisl_pyproject)"
  unfolding project_name allow_list
  by (simp add: physics_build sisl_build built_and_installed_def module_leaf_def
      module_package_def package_dir_def physics_sources_def)

end
